theory Spec2Isabelle
  imports Main "HOL-Library.AList"
begin

section \<open>Python values, exceptions and names\<close>

text \<open>
  The module \<^verbatim>\<open>cryptofeed/rest/gdax.py\<close> is a REST client: it signs a request,
  sends it, and renames the fields of the JSON it gets back. The model below follows the
  file function by function. A value decoded from JSON is a \<open>json\<close>; a Python
  dictionary is an association list whose keys are distinct, in insertion order. Numbers
  are integers: nothing below reads a fractional one.
\<close>

datatype json =
    JNull
  | JBool bool
  | JInt int
  | JStr string
  | JList "json list"
  | JObj "(string \<times> json) list"

text \<open>
  Every exception the file can raise is a value. \<open>UnboundLocalError\<close> is Python's
  subclass of \<open>NameError\<close> for a local variable that is read before it is assigned.
  \<open>HTTPError\<close> carries the status code; \<open>TimeoutError\<close> and
  \<open>ConnectionError\<close> are the two transport failures \<^verbatim>\<open>_make_request\<close>
  catches.
\<close>

datatype error =
    NameError string
  | UnboundLocalError string
  | TypeError string
  | KeyError string
  | AttributeError string
  | ValueError string
  | UnicodeEncodeError
  | BinasciiError
  | JSONDecodeError
  | HTTPError int
  | TimeoutError
  | ConnectionError

definition bindE :: "error + 'a \<Rightarrow> ('a \<Rightarrow> error + 'b) \<Rightarrow> error + 'b" where
  "bindE m f = (case m of Inl e \<Rightarrow> Inl e | Inr x \<Rightarrow> f x)"

text \<open>
  The module's global namespace, as its import statements and top-level assignments
  build it (lines 1 to 16 of the file). A name that a function reads and never assigns is
  looked up here; none of the names looked up below is a Python builtin.
\<close>

datatype pyobj =
    Module string
  | Member string string
  | IntObj int
  | Instance string

definition module_globals :: "(string \<times> pyobj) list" where
  "module_globals =
    [(''time'', Module ''time''), (''json'', Module ''json''),
     (''hashlib'', Module ''hashlib''), (''hmac'', Module ''hmac''),
     (''calendar'', Module ''calendar''), (''requests'', Module ''requests''),
     (''base64'', Module ''base64''),
     (''sleep'', Member ''time'' ''sleep''),
     (''dt'', Member ''datetime'' ''datetime''),
     (''pd'', Module ''pandas''),
     (''API'', Member ''cryptofeed.rest.api'' ''API''),
     (''GDAX'', Member ''cryptofeed.feeds'' ''GDAX''),
     (''get_logger'', Member ''cryptofeed.log'' ''get_logger''),
     (''pair_std_to_exchange'', Member ''cryptofeed.standards'' ''pair_std_to_exchange''),
     (''pair_exchange_to_std'', Member ''cryptofeed.standards'' ''pair_exchange_to_std''),
     (''REQUEST_LIMIT'', IntObj 10),
     (''LOG'', Instance ''Logger''),
     (''Gdax'', Instance ''type'')]"

definition load_global :: "string \<Rightarrow> error + pyobj" where
  "load_global name =
     (case map_of module_globals name of
        None \<Rightarrow> Inl (NameError name)
      | Some v \<Rightarrow> Inr v)"

text \<open>
  A local variable of a function is unbound until its first assignment. Reading it
  unbound raises \<open>UnboundLocalError\<close>.
\<close>

datatype 'a binding = Unbound | Bound 'a

definition load_fast :: "string \<Rightarrow> 'a binding \<Rightarrow> error + 'a" where
  "load_fast name b =
     (case b of Unbound \<Rightarrow> Inl (UnboundLocalError name) | Bound v \<Rightarrow> Inr v)"

section \<open>The client object and its collaborators\<close>

text \<open>
  The fields the base class \<^verbatim>\<open>API\<close> sets at construction, read-only here.
\<close>

record client =
  key_id :: string
  key_secret :: string
  key_passphrase :: string
  sandbox :: bool

text \<open>
  What the file imports and calls but does not define: the feed identifier
  \<^verbatim>\<open>GDAX\<close> and the pair translation of the surrounding framework, the
  library's base64 and HMAC-SHA256, the two date parsers, and \<^verbatim>\<open>json.dumps\<close>.
  They are parameters of the model. A date is the number of microseconds since the epoch.
\<close>

record env =
  feed_id :: string
  pair_std_to_exchange :: "string \<Rightarrow> string \<Rightarrow> string"
  b64decode :: "string \<Rightarrow> error + nat list"
  hmac_sha256 :: "nat list \<Rightarrow> nat list \<Rightarrow> nat list"
  b64encode :: "nat list \<Rightarrow> string"
  pd_timestamp :: "string \<Rightarrow> error + int"
  strptime :: "string \<Rightarrow> error + int"
  json_dumps :: "json \<Rightarrow> string"

definition api :: string where
  "api = ''https://api.gdax.com''"

definition sandbox_api :: string where
  "sandbox_api = ''https://api-public.sandbox.gdax.com''"

section \<open>Signing: \<^verbatim>\<open>_generate_signature\<close>\<close>

definition is_ascii :: "string \<Rightarrow> bool" where
  "is_ascii s = list_all (\<lambda>c. (of_char c :: nat) < 128) s"

definition encode_ascii :: "string \<Rightarrow> error + nat list" where
  "encode_ascii s = (if is_ascii s then Inr (map of_char s) else Inl UnicodeEncodeError)"

text \<open>
  \<open>now\<close> is \<^verbatim>\<open>str(time.time())\<close>, the clock as the call reads it. The
  secret is decoded first (line 26), then the message is encoded (line 27).
\<close>

definition generate_signature ::
  "env \<Rightarrow> client \<Rightarrow> string \<Rightarrow> string \<Rightarrow> string \<Rightarrow> string \<Rightarrow> error + (string \<times> string) list"
where
  "generate_signature E self now endpoint method body =
     (let timestamp = now;
          message = concat [timestamp, method, endpoint, body]
      in bindE (b64decode E (key_secret self)) (\<lambda>hmac_key.
         bindE (encode_ascii message) (\<lambda>msg.
           let signature_b64 = b64encode E (hmac_sha256 E hmac_key msg)
           in Inr [(''CB-ACCESS-KEY'', key_id self),
                   (''CB-ACCESS-SIGN'', signature_b64),
                   (''CB-ACCESS-TIMESTAMP'', timestamp),
                   (''CB-ACCESS-PASSPHRASE'', key_passphrase self),
                   (''Content-Type'', ''Application/JSON'')])))"

section \<open>The dispatcher: \<^verbatim>\<open>_make_request\<close>\<close>

text \<open>
  One attempt of \<^verbatim>\<open>requests.get\<close>, \<^verbatim>\<open>post\<close> or
  \<^verbatim>\<open>delete\<close> either raises or returns a response. The network is a script:
  the outcomes of the successive attempts. \<open>resp_body\<close> is what
  \<^verbatim>\<open>resp.json()\<close> returns, \<open>None\<close> when the text is not JSON.
\<close>

record response =
  status_code :: int
  resp_body :: "json option"

datatype outcome = Fails error | Responds response

text \<open>What a call does besides returning: requests sent, log lines, sleeps.\<close>

datatype event =
    HttpCall string string
  | LogWarning string
  | LogError string
  | Sleep int

text \<open>
  \<^verbatim>\<open>resp.raise_for_status()\<close> of the requests library raises
  \<open>HTTPError\<close> for a status from 400 to 599 and returns otherwise.
\<close>

definition raise_for_status :: "response \<Rightarrow> error + unit" where
  "raise_for_status r =
     (if 400 \<le> status_code r \<and> status_code r < 600
      then Inl (HTTPError (status_code r)) else Inr ())"

definition resp_json :: "response \<Rightarrow> error + json" where
  "resp_json r = (case resp_body r of None \<Rightarrow> Inl JSONDecodeError | Some j \<Rightarrow> Inr j)"

text \<open>
  Lines 76 to 94. A branch logs, calls \<^verbatim>\<open>raise_for_status\<close>, and, when that
  returns, falls through to \<^verbatim>\<open>return resp.json()\<close>.
\<close>

definition logged_then_raise :: "response \<Rightarrow> event list \<Rightarrow> (error + json) \<times> event list" where
  "logged_then_raise r evs =
     (case raise_for_status r of
        Inl e \<Rightarrow> (Inl e, evs)
      | Inr _ \<Rightarrow> (resp_json r, evs))"

definition check_status :: "response \<Rightarrow> (error + json) \<times> event list" where
  "check_status r =
     (if status_code r = 400 then
        logged_then_raise r [LogError ''Status code'', LogError ''Headers'', LogError ''Resp'']
      else if status_code r = 401 \<or> status_code r = 403 \<or> status_code r = 404 then
        logged_then_raise r [LogError ''Status code'', LogError ''Headers'']
      else if status_code r = 500 then
        logged_then_raise r [LogError ''Status code'']
      else if status_code r \<noteq> 200 then
        logged_then_raise r [LogError ''Status code'', LogError ''Headers'', LogError ''Resp'']
      else (resp_json r, []))"

text \<open>
  The two \<^verbatim>\<open>except\<close> blocks (lines 52 to 60 and 61 to 69) differ in the log
  text only. \<^verbatim>\<open>retry\<close> is a local variable of \<^verbatim>\<open>_make_request\<close>,
  since line 58 assigns it; \<^verbatim>\<open>retry_wait\<close> is never assigned in the function, so
  it is a global name. \<^verbatim>\<open>sleep\<close> wants a number.
\<close>

datatype control = Raise error | Continue "int option binding"

definition sleep_arg :: "pyobj \<Rightarrow> error + int" where
  "sleep_arg v = (case v of IntObj n \<Rightarrow> Inr n | _ \<Rightarrow> Inl (TypeError ''sleep''))"

definition sleep_and_continue :: "int option binding \<Rightarrow> event list \<Rightarrow> control \<times> event list" where
  "sleep_and_continue retry evs =
     (case bindE (load_global ''retry_wait'') sleep_arg of
        Inl e \<Rightarrow> (Raise e, evs)
      | Inr secs \<Rightarrow> (Continue retry, evs @ [Sleep secs]))"

definition on_transport_failure :: "int option binding \<Rightarrow> error \<Rightarrow> control \<times> event list" where
  "on_transport_failure retry e =
     (let evs = [LogWarning (if e = TimeoutError then ''Timeout'' else ''Connection error'')]
      in case load_fast ''retry'' retry of
           Inl err \<Rightarrow> (Raise err, evs)
         | Inr None \<Rightarrow> sleep_and_continue retry evs
         | Inr (Some n) \<Rightarrow>
             if n = 0 then (Raise e, evs)
             else sleep_and_continue (Bound (Some (n - 1))) evs)"

text \<open>
  The \<^verbatim>\<open>while True\<close> loop. Each iteration makes at most one attempt and so
  consumes one outcome of the script; the result is \<open>None\<close> when the script ends
  before the loop does. A method other than the three leaves \<^verbatim>\<open>resp\<close>
  unassigned, and line 76 reads it.
\<close>

fun request_loop ::
  "string \<Rightarrow> string \<Rightarrow> string \<Rightarrow> int option binding \<Rightarrow> outcome list \<Rightarrow> event list
     \<Rightarrow> (error + json) option \<times> event list"
where
  "request_loop base method endpoint retry [] tr =
     (if method = ''GET'' \<or> method = ''POST'' \<or> method = ''DELETE''
      then (None, tr)
      else (Some (Inl (UnboundLocalError ''resp'')), tr))"
| "request_loop base method endpoint retry (out # outs) tr =
     (if method = ''GET'' \<or> method = ''POST'' \<or> method = ''DELETE'' then
        (case out of
           Responds r \<Rightarrow>
             (Some (fst (check_status r)),
              tr @ [HttpCall method (base @ endpoint)] @ snd (check_status r))
         | Fails e \<Rightarrow>
             if e = TimeoutError \<or> e = ConnectionError then
               (case on_transport_failure retry e of
                  (Raise err, evs) \<Rightarrow>
                    (Some (Inl err), tr @ [HttpCall method (base @ endpoint)] @ evs)
                | (Continue retry', evs) \<Rightarrow>
                    request_loop base method endpoint retry' outs
                      (tr @ [HttpCall method (base @ endpoint)] @ evs))
             else (Some (Inl e), tr @ [HttpCall method (base @ endpoint)]))
      else (Some (Inl (UnboundLocalError ''resp'')), tr))"

text \<open>
  \<^verbatim>\<open>_make_request(self, method, endpoint, header, body=None)\<close>: the parameters
  do not include \<^verbatim>\<open>retry\<close>, so the local starts unbound. The header and the
  body go to the transport unchanged.
\<close>

definition base_url :: "client \<Rightarrow> string" where
  "base_url self = (if sandbox self then sandbox_api else api)"

definition make_request ::
  "client \<Rightarrow> string \<Rightarrow> string \<Rightarrow> 'h \<Rightarrow> json option \<Rightarrow> outcome list
     \<Rightarrow> (error + json) option \<times> event list"
where
  "make_request self method endpoint header body outs =
     request_loop (base_url self) method endpoint Unbound outs []"

section \<open>Normalization: \<^verbatim>\<open>_trade_normalization\<close>\<close>

text \<open>
  \<^verbatim>\<open>trade['k']\<close> on a dictionary raises \<open>KeyError\<close> for a missing key;
  on any other JSON value it raises \<open>TypeError\<close>.
\<close>

definition getitem :: "(string \<times> json) list \<Rightarrow> string \<Rightarrow> error + json" where
  "getitem d k = (case map_of d k of None \<Rightarrow> Inl (KeyError k) | Some v \<Rightarrow> Inr v)"

definition subscript :: "json \<Rightarrow> string \<Rightarrow> error + json" where
  "subscript v k = (case v of JObj d \<Rightarrow> getitem d k | _ \<Rightarrow> Inl (TypeError ''subscript''))"

definition has_key :: "json \<Rightarrow> string \<Rightarrow> bool" where
  "has_key v k = (case v of JObj d \<Rightarrow> map_of d k \<noteq> None | _ \<Rightarrow> False)"

text \<open>
  Lines 240 to 260. The dictionary display reads the five raw fields in order. The
  \<^verbatim>\<open>else\<close> branch reads \<^verbatim>\<open>id\<close> and \<^verbatim>\<open>type\<close> from
  \<^verbatim>\<open>trade\<close>, and the other five fields from \<^verbatim>\<open>trade_data\<close>
  itself (lines 254 to 258).
\<close>

definition trade_normalization :: "env \<Rightarrow> json \<Rightarrow> error + (string \<times> json) list" where
  "trade_normalization E trade =
     bindE (subscript trade ''created_at'') (\<lambda>created_at.
     bindE (subscript trade ''product_id'') (\<lambda>product_id.
     bindE (subscript trade ''side'') (\<lambda>side.
     bindE (subscript trade ''size'') (\<lambda>size.
     bindE (subscript trade ''price'') (\<lambda>price.
       let trade_data =
             [(''timestamp'', created_at), (''pair'', product_id), (''feed'', JStr (feed_id E)),
              (''side'', side), (''amount'', size), (''price'', price)]
       in if has_key trade ''order_id'' then
            bindE (subscript trade ''order_id'') (\<lambda>v.
              Inr (AList.update ''id'' v trade_data))
          else
            bindE (subscript trade ''id'') (\<lambda>v1.
            let td1 = AList.update ''id'' v1 trade_data in
            bindE (subscript trade ''type'') (\<lambda>v2.
            let td2 = AList.update ''type'' v2 td1 in
            bindE (getitem td2 ''fill_fees'') (\<lambda>v3.
            let td3 = AList.update ''fill_fees'' v3 td2 in
            bindE (getitem td3 ''filled_size'') (\<lambda>v4.
            let td4 = AList.update ''filled_size'' v4 td3 in
            bindE (getitem td4 ''executed_value'') (\<lambda>v5.
            let td5 = AList.update ''executed_value'' v5 td4 in
            bindE (getitem td5 ''status'') (\<lambda>v6.
            let td6 = AList.update ''status'' v6 td5 in
            bindE (getitem td6 ''settled'') (\<lambda>v7.
              Inr (AList.update ''settled'' v7 td6)))))))))))))"

text \<open>
  A call binds its positional arguments to the one parameter \<^verbatim>\<open>trade\<close>
  (\<^verbatim>\<open>self\<close> apart); any other number of arguments is a \<open>TypeError\<close>
  before the body runs.
\<close>

definition call_trade_normalization :: "env \<Rightarrow> json list \<Rightarrow> error + (string \<times> json) list" where
  "call_trade_normalization E args =
     (case args of
        [trade] \<Rightarrow> trade_normalization E trade
      | _ \<Rightarrow> Inl (TypeError ''_trade_normalization''))"

text \<open>
  Iterating a JSON value, as \<^verbatim>\<open>for\<close> and \<^verbatim>\<open>map\<close> do: a list gives
  its elements, a dictionary its keys, a string its characters.
\<close>

definition py_iter :: "json \<Rightarrow> error + json list" where
  "py_iter v =
     (case v of
        JList xs \<Rightarrow> Inr xs
      | JObj d \<Rightarrow> Inr (map (\<lambda>kv. JStr (fst kv)) d)
      | JStr s \<Rightarrow> Inr (map (\<lambda>c. JStr [c]) s)
      | _ \<Rightarrow> Inl (TypeError ''iter''))"

text \<open>\<^verbatim>\<open>list(map(f, xs))\<close>: the first call that raises ends the whole.\<close>

fun map_raising :: "('a \<Rightarrow> error + 'b) \<Rightarrow> 'a list \<Rightarrow> error + 'b list" where
  "map_raising f [] = Inr []"
| "map_raising f (x # xs) =
     bindE (f x) (\<lambda>y. bindE (map_raising f xs) (\<lambda>ys. Inr (y # ys)))"

section \<open>Fills: \<^verbatim>\<open>_get_fills\<close> and \<^verbatim>\<open>fills\<close>\<close>

definition opt_json :: "string option \<Rightarrow> json" where
  "opt_json s = (case s of None \<Rightarrow> JNull | Some t \<Rightarrow> JStr t)"

definition attr_strptime :: "pyobj \<Rightarrow> error + unit" where
  "attr_strptime v =
     (if v = Member ''datetime'' ''datetime'' then Inr () else Inl (AttributeError ''strptime''))"

definition parse_created :: "env \<Rightarrow> json \<Rightarrow> error + int" where
  "parse_created E v = (case v of JStr s \<Rightarrow> strptime E s | _ \<Rightarrow> Inl (TypeError ''strptime''))"

text \<open>
  The loop of lines 113 to 117. Line 114 evaluates the name \<^verbatim>\<open>datetime\<close>, then
  its attribute, then \<^verbatim>\<open>entry['created_at']\<close>, then the call.
\<close>

fun entries_in_range :: "env \<Rightarrow> int \<Rightarrow> int \<Rightarrow> json list \<Rightarrow> json list \<Rightarrow> error + json list" where
  "entries_in_range E start_time end_time [] data_in_range = Inr data_in_range"
| "entries_in_range E start_time end_time (entry # rest) data_in_range =
     bindE (load_global ''datetime'') (\<lambda>d.
     bindE (attr_strptime d) (\<lambda>_.
     bindE (subscript entry ''created_at'') (\<lambda>c.
     bindE (parse_created E c) (\<lambda>entry_time.
       entries_in_range E start_time end_time rest
         (if entry_time \<ge> start_time \<and> entry_time \<le> end_time
          then data_in_range @ [entry] else data_in_range)))))"

text \<open>Lines 106 to 118: what becomes of \<^verbatim>\<open>data\<close> before it is normalized.\<close>

definition select_fills ::
  "env \<Rightarrow> string option \<Rightarrow> string option \<Rightarrow> json \<Rightarrow> (error + json) \<times> event list"
where
  "select_fills E start_date end_date data =
     (if data = JList [] then (Inr data, [LogWarning ''No data''])
      else case (start_date, end_date) of
        (Some s, Some e) \<Rightarrow>
          (bindE (pd_timestamp E s) (\<lambda>start_time.
           bindE (pd_timestamp E e) (\<lambda>end_time.
           bindE (py_iter data) (\<lambda>entries.
           bindE (entries_in_range E start_time end_time entries []) (\<lambda>kept.
             Inr (JList kept))))), [])
      | _ \<Rightarrow> (Inr data, []))"

text \<open>Line 120: \<^verbatim>\<open>self._trade_normalization(symbol, x)\<close> for each \<open>x\<close>.\<close>

definition normalize_fills :: "env \<Rightarrow> string option \<Rightarrow> json \<Rightarrow> error + (string \<times> json) list list" where
  "normalize_fills E symbol data =
     bindE (py_iter data) (map_raising (\<lambda>x. call_trade_normalization E [opt_json symbol, x]))"

definition fills_endpoint :: "env \<Rightarrow> string option \<Rightarrow> string" where
  "fills_endpoint E symbol =
     (case symbol of
        None \<Rightarrow> ''/fills''
      | Some s \<Rightarrow> ''/fills'' @ ''?product_id='' @ pair_std_to_exchange E s (feed_id E))"

text \<open>
  \<^verbatim>\<open>_get_fills(self, symbol, retry, retry_wait, start_date, end_date)\<close>. The
  parameters \<^verbatim>\<open>retry\<close> and \<^verbatim>\<open>retry_wait\<close> are accepted; line 104 does not
  pass them on.
\<close>

definition get_fills ::
  "env \<Rightarrow> client \<Rightarrow> string \<Rightarrow> string option \<Rightarrow> int option \<Rightarrow> int \<Rightarrow> string option \<Rightarrow> string option
     \<Rightarrow> outcome list \<Rightarrow> (error + (string \<times> json) list list) option \<times> event list"
where
  "get_fills E self now symbol retry retry_wait start_date end_date outs =
     (let symbol' = map_option (\<lambda>s. pair_std_to_exchange E s (feed_id E)) symbol;
          endpoint = fills_endpoint E symbol
      in case generate_signature E self now endpoint ''GET'' [] of
           Inl e \<Rightarrow> (Some (Inl e), [])
         | Inr header \<Rightarrow>
            (case make_request self ''GET'' endpoint header None outs of
               (None, tr) \<Rightarrow> (None, tr)
             | (Some (Inl e), tr) \<Rightarrow> (Some (Inl e), tr)
             | (Some (Inr data), tr) \<Rightarrow>
                 (case select_fills E start_date end_date data of
                    (Inl e, evs) \<Rightarrow> (Some (Inl e), tr @ evs)
                  | (Inr data', evs) \<Rightarrow> (Some (normalize_fills E symbol' data'), tr @ evs))))"

definition fills ::
  "env \<Rightarrow> client \<Rightarrow> string \<Rightarrow> string option \<Rightarrow> string option \<Rightarrow> string option \<Rightarrow> int option \<Rightarrow> int
     \<Rightarrow> outcome list \<Rightarrow> (error + (string \<times> json) list list) option \<times> event list"
where
  "fills E self now symbol start end' retry retry_wait outs =
     get_fills E self now symbol retry retry_wait start end' outs"

section \<open>Orders: \<^verbatim>\<open>_get_orders\<close>, \<^verbatim>\<open>_delete_order\<close>\<close>

text \<open>\<^verbatim>\<open>needle in hay\<close> on strings: \<open>needle\<close> occurs in \<open>hay\<close>.\<close>

fun starts_with :: "string \<Rightarrow> string \<Rightarrow> bool" where
  "starts_with [] hay = True"
| "starts_with (c # cs) [] = False"
| "starts_with (c # cs) (h # hs) = (c = h \<and> starts_with cs hs)"

fun occurs_in :: "string \<Rightarrow> string \<Rightarrow> bool" where
  "occurs_in needle [] = (needle = [])"
| "occurs_in needle (h # hs) = (starts_with needle (h # hs) \<or> occurs_in needle hs)"

text \<open>
  The argument of \<^verbatim>\<open>get_orders\<close>, as its docstring describes it: a dictionary
  with an optional list under \<^verbatim>\<open>'status'\<close> and an optional
  \<^verbatim>\<open>'product_id'\<close>. No other key is read.
\<close>

record orders_query =
  status :: "string list option"
  product_id :: "string option"

text \<open>
  The loop of lines 130 to 134. The private functions keep their names without the
  leading underscore; \<^verbatim>\<open>get_orders\<close> (line 226) only forwards to
  \<^verbatim>\<open>_get_orders\<close>, modelled below under that name.
\<close>

fun append_statuses :: "string \<Rightarrow> string list \<Rightarrow> string" where
  "append_statuses endpoint [] = endpoint"
| "append_statuses endpoint (s # ss) =
     append_statuses
       (if \<not> occurs_in ''status'' endpoint
        then endpoint @ ''?status='' @ s
        else endpoint @ ''&status'' @ s) ss"

text \<open>Lines 128 to 141.\<close>

definition orders_endpoint :: "env \<Rightarrow> orders_query \<Rightarrow> string" where
  "orders_endpoint E body =
     (let endpoint = (case status body of
                        None \<Rightarrow> ''/orders''
                      | Some ss \<Rightarrow> append_statuses ''/orders'' ss)
      in case product_id body of
           None \<Rightarrow> endpoint
         | Some p \<Rightarrow>
             (let pid = pair_std_to_exchange E p (feed_id E)
              in if occurs_in ''status'' endpoint
                 then endpoint @ ''?product_id='' @ pid
                 else endpoint @ ''&product_id='' @ pid))"

definition get_orders ::
  "env \<Rightarrow> client \<Rightarrow> string \<Rightarrow> orders_query \<Rightarrow> outcome list
     \<Rightarrow> (error + (string \<times> json) list list) option \<times> event list"
where
  "get_orders E self now body outs =
     (let endpoint = orders_endpoint E body
      in case generate_signature E self now endpoint ''GET'' [] of
           Inl e \<Rightarrow> (Some (Inl e), [])
         | Inr header \<Rightarrow>
            (case make_request self ''GET'' endpoint header None outs of
               (None, tr) \<Rightarrow> (None, tr)
             | (Some (Inl e), tr) \<Rightarrow> (Some (Inl e), tr)
             | (Some (Inr data), tr) \<Rightarrow>
                 (Some (bindE (py_iter data)
                          (map_raising (\<lambda>x. call_trade_normalization E [x]))), tr)))"

text \<open>
  \<^verbatim>\<open>_delete_order(self, order_id=None)\<close>, lines 172 to 178. Its parameters are
  \<^verbatim>\<open>self\<close> and \<^verbatim>\<open>order_id\<close>; it assigns \<^verbatim>\<open>endpoint\<close> and
  \<^verbatim>\<open>header\<close>. The names \<^verbatim>\<open>body\<close> (line 177) and
  \<^verbatim>\<open>headers\<close> (line 178) are neither, so they are global names. The argument of
  \<^verbatim>\<open>json.dumps\<close> is evaluated before the signature is computed.
\<close>

definition dumps_obj :: "env \<Rightarrow> pyobj \<Rightarrow> error + string" where
  "dumps_obj E v = (case v of IntObj n \<Rightarrow> Inr (json_dumps E (JInt n)) | _ \<Rightarrow> Inl (TypeError ''dumps''))"

definition delete_order ::
  "env \<Rightarrow> client \<Rightarrow> string \<Rightarrow> string option \<Rightarrow> outcome list \<Rightarrow> (error + unit) option \<times> event list"
where
  "delete_order E self now order_id outs =
     (let endpoint = (case order_id of
                        None \<Rightarrow> ''/orders''
                      | Some oid \<Rightarrow> ''/orders'' @ ''/'' @ oid)
      in case bindE (load_global ''body'') (dumps_obj E) of
           Inl e \<Rightarrow> (Some (Inl e), [])
         | Inr dumped \<Rightarrow>
            (case generate_signature E self now endpoint ''DELETE'' dumped of
               Inl e \<Rightarrow> (Some (Inl e), [])
             | Inr header \<Rightarrow>
                (case load_global ''headers'' of
                   Inl e \<Rightarrow> (Some (Inl e), [])
                 | Inr headers \<Rightarrow>
                    (case make_request self ''DELETE'' endpoint headers None outs of
                       (None, tr) \<Rightarrow> (None, tr)
                     | (Some (Inl e), tr) \<Rightarrow> (Some (Inl e), tr)
                     | (Some (Inr _), tr) \<Rightarrow> (Some (Inr ()), tr)))))"

definition cancel_orders ::
  "env \<Rightarrow> client \<Rightarrow> string \<Rightarrow> string option \<Rightarrow> outcome list \<Rightarrow> (error + unit) option \<times> event list"
where
  "cancel_orders E self now order_id outs = delete_order E self now order_id outs"

section \<open>Observations on a trace\<close>

text \<open>The attempts of a call are the requests it sent; its sleeps are the waits it took.\<close>

fun is_http_call :: "event \<Rightarrow> bool" where
  "is_http_call (HttpCall m u) = True"
| "is_http_call ev = False"

definition attempts :: "event list \<Rightarrow> nat" where
  "attempts tr = length (filter is_http_call tr)"

fun sleeps :: "event list \<Rightarrow> int list" where
  "sleeps [] = []"
| "sleeps (Sleep n # tr) = n # sleeps tr"
| "sleeps (ev # tr) = sleeps tr"

section \<open>Recorded inputs\<close>

text \<open>
  The fill of the docstring of \<^verbatim>\<open>fills\<close> (lines 185 to 196), and an order as
  the exchange lists it, with every field lines 252 to 258 name.
\<close>

definition fill_record :: json where
  "fill_record = JObj
     [(''trade_id'', JInt 74), (''product_id'', JStr ''BTC-USD''), (''price'', JStr ''10.00''),
      (''size'', JStr ''0.01''), (''order_id'', JStr ''d50ec984-77a8-460a-b958-66f114b0de9b''),
      (''created_at'', JStr ''2014-11-07T22:19:28.578544Z''), (''liquidity'', JStr ''T''),
      (''fee'', JStr ''0.00025''), (''settled'', JBool True), (''side'', JStr ''buy'')]"

definition order_record :: json where
  "order_record = JObj
     [(''id'', JStr ''d0c5340b-6d6c-49d9-b567-48c4bfca13d2''), (''price'', JStr ''0.10000000''),
      (''size'', JStr ''0.01000000''), (''product_id'', JStr ''BTC-USD''), (''side'', JStr ''buy''),
      (''type'', JStr ''limit''), (''created_at'', JStr ''2016-12-08T20:02:28.53864Z''),
      (''fill_fees'', JStr ''0.0000000000000000''), (''filled_size'', JStr ''0.00000000''),
      (''executed_value'', JStr ''0.0000000000000000''), (''status'', JStr ''open''),
      (''settled'', JBool False)]"

text \<open>
  The collaborators at the inputs used below, with the values the libraries give there:
  the secret \<^verbatim>\<open>c2VjcmV0\<close> decodes to the bytes of \<^verbatim>\<open>secret\<close>; the
  digest is HMAC-SHA256 under that key of \<^verbatim>\<open>1541289600.0GET/fills\<close>; the dates
  are in microseconds since the epoch. Elsewhere the functions give a fixed value or a
  parse error.
\<close>

definition example_secret :: "nat list" where
  "example_secret = [115, 101, 99, 114, 101, 116]"

definition example_message :: "nat list" where
  "example_message =
     [49, 53, 52, 49, 50, 56, 57, 54, 48, 48, 46, 48, 71, 69, 84, 47, 102, 105, 108, 108, 115]"

definition example_digest :: "nat list" where
  "example_digest =
     [4, 243, 127, 109, 228, 30, 176, 81, 249, 38, 35, 251, 125, 211, 104, 103, 150, 145, 159,
      159, 123, 5, 66, 151, 160, 8, 105, 234, 151, 71, 53, 193]"

definition example_env :: env where
  "example_env =
     \<lparr> feed_id = ''GDAX'',
       pair_std_to_exchange = (\<lambda>symbol exchange. symbol),
       b64decode = (\<lambda>s. if s = ''c2VjcmV0'' then Inr example_secret else Inl BinasciiError),
       hmac_sha256 = (\<lambda>key msg. if key = example_secret \<and> msg = example_message
                                 then example_digest else []),
       b64encode = (\<lambda>d. if d = example_digest
                          then ''BPN/beQesFH5JiP7fdNoZ5aRn597BUKXoAhp6pdHNcE='' else []),
       pd_timestamp = (\<lambda>s. if s = ''2014-11-01'' then Inr 1414800000000000
                             else if s = ''2014-11-30'' then Inr 1417305600000000
                             else Inl (ValueError s)),
       strptime = (\<lambda>s. if s = ''2014-11-07T22:19:28.578544Z'' then Inr 1415398768578544
                         else Inl (ValueError s)),
       json_dumps = (\<lambda>j. []) \<rparr>"

definition example_client :: client where
  "example_client =
     \<lparr> key_id = ''key'', key_secret = ''c2VjcmV0'', key_passphrase = ''pass'', sandbox = False \<rparr>"

section \<open>Name resolution\<close>

text \<open>Four names the functions read are bound nowhere in the module.\<close>

lemma load_retry_wait: "load_global ''retry_wait'' = Inl (NameError ''retry_wait'')"
  by (simp add: load_global_def module_globals_def)

lemma load_datetime: "load_global ''datetime'' = Inl (NameError ''datetime'')"
  by (simp add: load_global_def module_globals_def)

lemma load_body: "load_global ''body'' = Inl (NameError ''body'')"
  by (simp add: load_global_def module_globals_def)

lemma load_headers: "load_global ''headers'' = Inl (NameError ''headers'')"
  by (simp add: load_global_def module_globals_def)

section \<open>Properties of the signer\<close>

lemma example_signature:
  "generate_signature example_env example_client ''1541289600.0'' ''/fills'' ''GET'' [] =
     Inr [(''CB-ACCESS-KEY'', ''key''),
          (''CB-ACCESS-SIGN'', ''BPN/beQesFH5JiP7fdNoZ5aRn597BUKXoAhp6pdHNcE=''),
          (''CB-ACCESS-TIMESTAMP'', ''1541289600.0''),
          (''CB-ACCESS-PASSPHRASE'', ''pass''),
          (''Content-Type'', ''Application/JSON'')]"
  by (simp add: generate_signature_def example_env_def example_client_def bindE_def
      encode_ascii_def is_ascii_def example_message_def Let_def)

text \<open>
  Signing returns exactly when the secret decodes and the message is ASCII: line 27
  encodes the message with \<^verbatim>\<open>encode('ascii')\<close>.
\<close>

lemma generate_signature_returns_iff:
  "(\<exists>h. generate_signature E self now endpoint method body = Inr h) =
     ((\<exists>k. b64decode E (key_secret self) = Inr k) \<and> is_ascii (now @ method @ endpoint @ body))"
  by (auto simp add: generate_signature_def bindE_def encode_ascii_def Let_def
      split: sum.splits if_splits)

text \<open>
  Claim C7, as stated: for every secret, method, endpoint and body, and a fixed timestamp,
  signing returns the header set. It does not for an endpoint with a character outside
  ASCII, such as the path of an order whose id is the letter with code 233: the call
  raises \<open>UnicodeEncodeError\<close>.
\<close>

theorem signature_non_ascii_endpoint:
  "generate_signature example_env example_client ''1541289600.0'' (''/orders/'' @ [CHR 0xE9]) ''GET'' []
     = Inl UnicodeEncodeError"
  by (simp add: generate_signature_def example_env_def example_client_def bindE_def
      encode_ascii_def is_ascii_def)

text \<open>
  Claim C7, amended: for every secret that base64-decodes and every timestamp, method,
  endpoint and body whose concatenation is ASCII, signing returns the five headers: the raw
  key id, the base64 of the HMAC-SHA256 digest (keyed with the decoded secret) of the
  separator-free concatenation timestamp, method, endpoint, body, the timestamp, the
  passphrase and the fixed content type. The result is a function of these inputs alone.
\<close>

theorem generate_signature_headers:
  assumes "b64decode E (key_secret self) = Inr hmac_key"
    and "is_ascii (now @ method @ endpoint @ body)"
  shows "generate_signature E self now endpoint method body =
           Inr [(''CB-ACCESS-KEY'', key_id self),
                (''CB-ACCESS-SIGN'',
                   b64encode E (hmac_sha256 E hmac_key (map of_char (now @ method @ endpoint @ body)))),
                (''CB-ACCESS-TIMESTAMP'', now),
                (''CB-ACCESS-PASSPHRASE'', key_passphrase self),
                (''Content-Type'', ''Application/JSON'')]"
  using assms by (simp add: generate_signature_def bindE_def encode_ascii_def)

theorem generate_signature_headers_witness:
  "b64decode example_env (key_secret example_client) = Inr example_secret
   \<and> is_ascii (''1541289600.0'' @ ''GET'' @ ''/fills'' @ [])
   \<and> generate_signature example_env example_client ''1541289600.0'' ''/fills'' ''GET'' [] =
       Inr [(''CB-ACCESS-KEY'', ''key''),
            (''CB-ACCESS-SIGN'', ''BPN/beQesFH5JiP7fdNoZ5aRn597BUKXoAhp6pdHNcE=''),
            (''CB-ACCESS-TIMESTAMP'', ''1541289600.0''),
            (''CB-ACCESS-PASSPHRASE'', ''pass''),
            (''Content-Type'', ''Application/JSON'')]"
proof -
  have k: "b64decode example_env (key_secret example_client) = Inr example_secret"
    by (simp add: example_env_def example_client_def)
  have a: "is_ascii (''1541289600.0'' @ ''GET'' @ ''/fills'' @ [])"
    by (simp add: is_ascii_def)
  show ?thesis
    using k a generate_signature_headers [OF k a]
    by (simp add: example_env_def example_client_def example_message_def)
qed

section \<open>Properties of the dispatcher\<close>

text \<open>
  \<^verbatim>\<open>retry_wait\<close> resolves nowhere, so the sleep of lines 59 and 68 is never
  reached: whatever \<^verbatim>\<open>retry\<close> holds, the handler ends in a raise.
\<close>

lemma sleep_and_continue_raises:
  "sleep_and_continue retry evs = (Raise (NameError ''retry_wait''), evs)"
  by (simp add: sleep_and_continue_def load_retry_wait bindE_def)

lemma on_transport_failure_cases:
  "on_transport_failure retry e =
     (case retry of
        Unbound \<Rightarrow> Raise (UnboundLocalError ''retry'')
      | Bound None \<Rightarrow> Raise (NameError ''retry_wait'')
      | Bound (Some n) \<Rightarrow> if n = 0 then Raise e else Raise (NameError ''retry_wait''),
      [LogWarning (if e = TimeoutError then ''Timeout'' else ''Connection error'')])"
  by (simp add: on_transport_failure_def load_fast_def sleep_and_continue_raises
      split: binding.splits option.splits)

lemma request_loop_failure_unbound:
  assumes "method = ''GET'' \<or> method = ''POST'' \<or> method = ''DELETE''"
    and "e = TimeoutError \<or> e = ConnectionError"
  shows "request_loop base method endpoint Unbound (Fails e # outs) tr =
           (Some (Inl (UnboundLocalError ''retry'')),
            tr @ [HttpCall method (base @ endpoint),
                  LogWarning (if e = TimeoutError then ''Timeout'' else ''Connection error'')])"
  using assms by (auto simp add: on_transport_failure_cases)

text \<open>
  On a transport failure the dispatcher stops after the first attempt: the handler reads
  the local \<^verbatim>\<open>retry\<close>, which nothing has assigned.
\<close>

lemma make_request_transport_failure:
  assumes "method = ''GET'' \<or> method = ''POST'' \<or> method = ''DELETE''"
    and "e = TimeoutError \<or> e = ConnectionError"
  shows "make_request self method endpoint header body (Fails e # outs) =
           (Some (Inl (UnboundLocalError ''retry'')),
            [HttpCall method (base_url self @ endpoint),
             LogWarning (if e = TimeoutError then ''Timeout'' else ''Connection error'')])"
  using assms
  by (simp add: make_request_def request_loop_failure_unbound del: request_loop.simps)

lemma make_request_response:
  assumes "method = ''GET'' \<or> method = ''POST'' \<or> method = ''DELETE''"
  shows "make_request self method endpoint header body (Responds r # outs) =
           (Some (fst (check_status r)),
            HttpCall method (base_url self @ endpoint) # snd (check_status r))"
  using assms by (auto simp add: make_request_def)

lemma check_status_logs_only:
  "attempts (snd (check_status r)) = 0 \<and> sleeps (snd (check_status r)) = []"
  by (simp add: check_status_def logged_then_raise_def attempts_def split: sum.splits)

lemma check_status_http_error:
  assumes "400 \<le> status_code r" and "status_code r < 600"
  shows "fst (check_status r) = Inl (HTTPError (status_code r))"
  using assms by (simp add: check_status_def logged_then_raise_def raise_for_status_def)

lemma check_status_ok:
  assumes "status_code r = 200"
  shows "check_status r = (resp_json r, [])"
  using assms by (simp add: check_status_def)

lemma check_status_other:
  assumes "status_code r < 400 \<or> 600 \<le> status_code r"
  shows "fst (check_status r) = resp_json r"
  using assms by (auto simp add: check_status_def logged_then_raise_def raise_for_status_def)

text \<open>
  A status from 400 to 599, 404 among them, is raised as an HTTP error after one attempt
  and no sleep.
\<close>

lemma make_request_http_error:
  assumes "method = ''GET'' \<or> method = ''POST'' \<or> method = ''DELETE''"
    and "400 \<le> status_code r" and "status_code r < 600"
  shows "fst (make_request self method endpoint header body (Responds r # outs)) =
           Some (Inl (HTTPError (status_code r)))
         \<and> attempts (snd (make_request self method endpoint header body (Responds r # outs))) = 1
         \<and> sleeps (snd (make_request self method endpoint header body (Responds r # outs))) = []"
  using assms check_status_logs_only [of r]
  by (simp add: make_request_response check_status_http_error attempts_def)

text \<open>
  The dispatcher always ends, and after exactly one attempt, whatever the first outcome:
  no path of the loop reaches \<^verbatim>\<open>continue\<close>.
\<close>

lemma make_request_one_attempt:
  assumes "method = ''GET'' \<or> method = ''POST'' \<or> method = ''DELETE''"
  shows "fst (make_request self method endpoint header body (out # outs)) \<noteq> None
         \<and> attempts (snd (make_request self method endpoint header body (out # outs))) = 1
         \<and> sleeps (snd (make_request self method endpoint header body (out # outs))) = []"
proof (cases out)
  case (Responds r)
  with assms check_status_logs_only [of r] show ?thesis
    by (simp add: make_request_response attempts_def)
next
  case (Fails e)
  show ?thesis
  proof (cases "e = TimeoutError \<or> e = ConnectionError")
    case True
    with assms Fails show ?thesis
      by (simp add: make_request_transport_failure attempts_def)
  next
    case False
    with assms Fails show ?thesis
      by (auto simp add: make_request_def attempts_def)
  qed
qed

lemma make_request_example_200:
  "make_request example_client ''GET'' ''/fills'' h None
      [Responds \<lparr>status_code = 200, resp_body = Some data\<rparr>] =
    (Some (Inr data), [HttpCall ''GET'' ''https://api.gdax.com/fills''])"
  by (simp add: make_request_response check_status_ok resp_json_def base_url_def
      example_client_def api_def)

text \<open>
  The budget and the wait a caller gives \<^verbatim>\<open>_get_fills\<close> change nothing: for
  every \<open>retry\<close> and \<open>retry_wait\<close> a first transport failure ends the call.
\<close>

lemma get_fills_transport_failure:
  assumes "generate_signature E self now (fills_endpoint E symbol) ''GET'' [] = Inr header"
    and "e = TimeoutError \<or> e = ConnectionError"
  shows "get_fills E self now symbol retry retry_wait start_date end_date (Fails e # outs) =
           (Some (Inl (UnboundLocalError ''retry'')),
            [HttpCall ''GET'' (base_url self @ fills_endpoint E symbol),
             LogWarning (if e = TimeoutError then ''Timeout'' else ''Connection error'')])"
  using assms by (simp add: get_fills_def make_request_transport_failure)

text \<open>
  Claim C1: with a retry budget N, a call that meets transport failures makes N + 1
  attempts, sleeps the given wait between them, and raises the transport error. At
  \<^verbatim>\<open>fills(retry=2, retry_wait=10)\<close> with a connection error on every attempt
  that is three attempts, two sleeps of 10 and a \<open>ConnectionError\<close>. The code makes
  one attempt, does not sleep, and raises \<open>UnboundLocalError\<close> for \<^verbatim>\<open>retry\<close>.
\<close>

theorem fills_retry_budget_single_attempt:
  "fills example_env example_client ''1541289600.0'' None None None (Some 2) 10
      [Fails ConnectionError, Fails ConnectionError, Fails ConnectionError] =
    (Some (Inl (UnboundLocalError ''retry'')),
     [HttpCall ''GET'' ''https://api.gdax.com/fills'', LogWarning ''Connection error''])"
proof -
  have "make_request example_client ''GET'' ''/fills'' h None
          [Fails ConnectionError, Fails ConnectionError, Fails ConnectionError] =
        (Some (Inl (UnboundLocalError ''retry'')),
         [HttpCall ''GET'' ''https://api.gdax.com/fills'', LogWarning ''Connection error''])"
    for h :: "(string \<times> string) list"
    by (simp add: make_request_transport_failure base_url_def example_client_def api_def)
  then show ?thesis
    by (simp add: fills_def get_fills_def fills_endpoint_def example_signature)
qed

text \<open>
  Claim C2: every response whose status is not 200 is raised as an HTTP error, and only
  status 200 yields the parsed body. For a status from 400 to 599 the code does raise
  (\<open>make_request_http_error\<close>). At status 201 it logs the three error lines and
  returns the parsed body: \<^verbatim>\<open>raise_for_status\<close> returns, and line 94 follows.
\<close>

theorem status_201_returns_body:
  "make_request example_client ''GET'' ''/fills'' ([] :: (string \<times> string) list) None
      [Responds \<lparr>status_code = 201, resp_body = Some (JList [fill_record])\<rparr>] =
    (Some (Inr (JList [fill_record])),
     [HttpCall ''GET'' ''https://api.gdax.com/fills'',
      LogError ''Status code'', LogError ''Headers'', LogError ''Resp''])"
  by (simp add: make_request_response check_status_def logged_then_raise_def
      raise_for_status_def resp_json_def base_url_def example_client_def api_def)

text \<open>
  The dispatcher never hands the caught transport failure back to its caller.
\<close>

lemma make_request_never_reraises:
  assumes "method = ''GET'' \<or> method = ''POST'' \<or> method = ''DELETE''"
    and "e = TimeoutError \<or> e = ConnectionError"
  shows "fst (make_request self method endpoint header body (Fails e # outs)) \<noteq> Some (Inl e)"
  using assms by (auto simp add: make_request_transport_failure)


section \<open>Properties of the fills query\<close>

text \<open>
  With both dates given, the first entry of a fetched list ends the loop of line 113: the
  name \<^verbatim>\<open>datetime\<close> of line 114 is not bound (line 3 imports the class as
  \<^verbatim>\<open>dt\<close>).
\<close>

lemma entries_in_range_raises:
  "entries_in_range E start_time end_time (entry # rest) acc = Inl (NameError ''datetime'')"
  by (simp add: load_datetime bindE_def)

text \<open>
  Line 120 calls \<^verbatim>\<open>_trade_normalization\<close> with two arguments; the method takes
  one. The first record of a list ends the call.
\<close>

lemma normalize_fills_raises:
  "normalize_fills E symbol (JList (x # xs)) = Inl (TypeError ''_trade_normalization'')"
  by (simp add: normalize_fills_def py_iter_def bindE_def call_trade_normalization_def)

lemma normalize_fills_empty: "normalize_fills E symbol (JList []) = Inr []"
  by (simp add: normalize_fills_def py_iter_def bindE_def)

text \<open>When the fetch returns no records, the result is empty, dates or no dates.\<close>

lemma fills_no_records:
  "fills example_env example_client ''1541289600.0'' None (Some ''2014-11-01'') (Some ''2014-11-30'')
      None 10 [Responds \<lparr>status_code = 200, resp_body = Some (JList [])\<rparr>] =
    (Some (Inr []), [HttpCall ''GET'' ''https://api.gdax.com/fills'', LogWarning ''No data''])"
  by (simp add: fills_def get_fills_def fills_endpoint_def example_signature
      make_request_example_200 select_fills_def normalize_fills_empty)

text \<open>
  Claim C3: with a start and an end date, the fills returned are exactly the fetched
  records whose creation time lies in the closed range. The fill of the docstring was
  created on 2014-11-07; for the range from 2014-11-01 to 2014-11-30 the claim has it
  returned. The code raises \<open>NameError\<close> for \<^verbatim>\<open>datetime\<close> at the first
  record.
\<close>

theorem fills_date_range_name_error:
  "fills example_env example_client ''1541289600.0'' None (Some ''2014-11-01'') (Some ''2014-11-30'')
      None 10 [Responds \<lparr>status_code = 200, resp_body = Some (JList [fill_record])\<rparr>] =
    (Some (Inl (NameError ''datetime'')), [HttpCall ''GET'' ''https://api.gdax.com/fills''])"
proof -
  have "select_fills example_env (Some ''2014-11-01'') (Some ''2014-11-30'') (JList [fill_record]) =
          (Inl (NameError ''datetime''), [])"
    by (simp add: select_fills_def example_env_def py_iter_def entries_in_range_raises bindE_def
        del: entries_in_range.simps)
  then show ?thesis
    by (simp add: fills_def get_fills_def fills_endpoint_def example_signature
        make_request_example_200)
qed

text \<open>
  Claim C4: a successful fills request whose body is the fill of the docstring returns
  the normalized record. Whether the body is a list holding the fill or the fill itself,
  the code raises \<open>TypeError\<close> at the call of line 120.
\<close>

theorem fills_fill_record_type_error:
  "fills example_env example_client ''1541289600.0'' None None None None 10
      [Responds \<lparr>status_code = 200, resp_body = Some (JList [fill_record])\<rparr>] =
    (Some (Inl (TypeError ''_trade_normalization'')), [HttpCall ''GET'' ''https://api.gdax.com/fills''])
   \<and> fills example_env example_client ''1541289600.0'' None None None None 10
      [Responds \<lparr>status_code = 200, resp_body = Some fill_record\<rparr>] =
    (Some (Inl (TypeError ''_trade_normalization'')), [HttpCall ''GET'' ''https://api.gdax.com/fills''])"
proof -
  have "normalize_fills example_env None fill_record = Inl (TypeError ''_trade_normalization'')"
    by (simp add: normalize_fills_def fill_record_def py_iter_def bindE_def
        call_trade_normalization_def)
  moreover have "fill_record \<noteq> JList []"
    by (simp add: fill_record_def)
  ultimately show ?thesis
    by (simp add: fills_def get_fills_def fills_endpoint_def example_signature
        make_request_example_200 select_fills_def normalize_fills_raises)
qed

text \<open>
  Claim C10: when exactly one of the two dates is given, no date filter is applied. The
  data handed to the normalization of line 120 is the fetched data, and the whole call
  does what it does with no date at all: the branch of line 108 needs both dates.
\<close>

theorem one_sided_date_range_not_filtered:
  assumes "(start = None) \<noteq> (end' = None)"
  shows "fst (select_fills E start end' data) = Inr data
         \<and> select_fills E start end' data = select_fills E None None data
         \<and> fills E self now symbol start end' retry retry_wait outs =
             fills E self now symbol None None retry retry_wait outs"
proof -
  from assms have sel: "select_fills E start end' d = select_fills E None None d" for d
    by (cases start; cases end') (simp_all add: select_fills_def)
  have same: "fills E self now symbol start end' retry retry_wait outs =
                fills E self now symbol None None retry retry_wait outs"
    unfolding fills_def get_fills_def sel ..
  have "fst (select_fills E None None data) = Inr data"
    by (simp add: select_fills_def)
  with sel same show ?thesis
    by simp
qed

theorem one_sided_date_range_not_filtered_witness:
  "fst (select_fills example_env (Some ''2014-11-30'') None (JList [fill_record, order_record]))
     = Inr (JList [fill_record, order_record])
   \<and> fst (select_fills example_env None (Some ''2014-11-01'') (JList [fill_record, order_record]))
     = Inr (JList [fill_record, order_record])"
  using one_sided_date_range_not_filtered [of "Some ''2014-11-30''" None example_env
      "JList [fill_record, order_record]", THEN conjunct1]
    one_sided_date_range_not_filtered [of None "Some ''2014-11-01''" example_env
      "JList [fill_record, order_record]", THEN conjunct1]
  by simp

section \<open>Properties of the normalization\<close>

text \<open>
  A record with \<^verbatim>\<open>order_id\<close> and the five base fields gets the fill shape: the
  six canonical fields and \<^verbatim>\<open>id\<close>, nothing else.
\<close>

lemma trade_normalization_fill_shape:
  assumes "map_of d ''created_at'' = Some t" and "map_of d ''product_id'' = Some p"
    and "map_of d ''side'' = Some sd" and "map_of d ''size'' = Some sz"
    and "map_of d ''price'' = Some pr" and "map_of d ''order_id'' = Some oid"
  shows "trade_normalization E (JObj d) =
           Inr [(''timestamp'', t), (''pair'', p), (''feed'', JStr (feed_id E)), (''side'', sd),
                (''amount'', sz), (''price'', pr), (''id'', oid)]"
  using assms by (simp add: trade_normalization_def subscript_def getitem_def has_key_def bindE_def)

text \<open>
  A record without \<^verbatim>\<open>order_id\<close> never gets the order shape: line 254 reads
  \<^verbatim>\<open>fill_fees\<close> from the dictionary under construction, which does not hold it.
\<close>

lemma trade_normalization_order_shape:
  assumes "map_of d ''created_at'' = Some t" and "map_of d ''product_id'' = Some p"
    and "map_of d ''side'' = Some sd" and "map_of d ''size'' = Some sz"
    and "map_of d ''price'' = Some pr" and "map_of d ''order_id'' = None"
    and "map_of d ''id'' = Some i" and "map_of d ''type'' = Some ty"
  shows "trade_normalization E (JObj d) = Inl (KeyError ''fill_fees'')"
  using assms by (simp add: trade_normalization_def subscript_def getitem_def has_key_def bindE_def)

lemma trade_normalization_without_order_id:
  assumes "\<not> has_key trade ''order_id''"
  shows "\<exists>e. trade_normalization E trade = Inl e"
  using assms
  by (auto simp add: trade_normalization_def subscript_def getitem_def has_key_def bindE_def
      Let_def split: sum.splits json.splits option.splits)

text \<open>
  Called with one argument, as \<^verbatim>\<open>_get_orders\<close> does at line 145, the
  normalization of the docstring's fill returns the fill shape.
\<close>

lemma fill_record_normalized:
  "call_trade_normalization example_env [fill_record] =
     Inr [(''timestamp'', JStr ''2014-11-07T22:19:28.578544Z''), (''pair'', JStr ''BTC-USD''),
          (''feed'', JStr ''GDAX''), (''side'', JStr ''buy''), (''amount'', JStr ''0.01''),
          (''price'', JStr ''10.00''), (''id'', JStr ''d50ec984-77a8-460a-b958-66f114b0de9b'')]"
  by (simp add: call_trade_normalization_def fill_record_def trade_normalization_fill_shape
      example_env_def)

text \<open>
  Claim C5: a raw record without \<^verbatim>\<open>order_id\<close> gets the order-shaped fields
  \<^verbatim>\<open>id\<close>, \<^verbatim>\<open>type\<close>, \<^verbatim>\<open>fill_fees\<close>, \<^verbatim>\<open>filled_size\<close>,
  \<^verbatim>\<open>executed_value\<close>, \<^verbatim>\<open>status\<close> and \<^verbatim>\<open>settled\<close> from the raw
  record, beside the base fields. For an order that holds every one of them the code
  raises \<open>KeyError\<close> for \<^verbatim>\<open>fill_fees\<close>.
\<close>

theorem order_record_key_error:
  "trade_normalization example_env order_record = Inl (KeyError ''fill_fees'')"
  by (simp add: order_record_def trade_normalization_order_shape)

section \<open>Properties of the order queries\<close>

text \<open>
  The first status is joined as the claim of the query builder has it; the second loses
  its equals sign, and the product gets the separator the other case should get.
\<close>

lemma orders_endpoint_single_status:
  "orders_endpoint E \<lparr>status = Some [s], product_id = None\<rparr> = ''/orders?status='' @ s"
  by (simp add: orders_endpoint_def)

lemma orders_endpoint_two_statuses:
  "orders_endpoint E \<lparr>status = Some [s1, s2], product_id = None\<rparr> =
     ''/orders?status='' @ s1 @ ''&status'' @ s2"
  by (simp add: orders_endpoint_def)

lemma orders_endpoint_status_then_product:
  "orders_endpoint E \<lparr>status = Some [s], product_id = Some p\<rparr> =
     ''/orders?status='' @ s @ ''?product_id='' @ pair_std_to_exchange E p (feed_id E)"
  by (simp add: orders_endpoint_def)

lemma orders_endpoint_product_only:
  "orders_endpoint E \<lparr>status = None, product_id = Some p\<rparr> =
     ''/orders&product_id='' @ pair_std_to_exchange E p (feed_id E)"
  by (simp add: orders_endpoint_def)

lemma example_orders_signature:
  "\<exists>h. generate_signature example_env example_client ''1541289600.0''
         ''/orders?status=open&statuspending?product_id=BTC-USD'' ''GET'' [] = Inr h"
  by (simp add: generate_signature_returns_iff example_env_def example_client_def is_ascii_def)

text \<open>
  Claim C6: the first query parameter appended is prefixed with a question mark, every
  later one with an ampersand, each as key=value. For the statuses open and pending and
  the product BTC-USD that is
  \<^verbatim>\<open>/orders?status=open&status=pending&product_id=BTC-USD\<close>. The code drops the
  equals sign of the second status (line 134) and gives the product a question mark
  (line 139); with a product alone it gives it an ampersand (line 141).
\<close>

theorem orders_endpoint_example:
  "orders_endpoint example_env \<lparr>status = Some [''open'', ''pending''], product_id = Some ''BTC-USD''\<rparr>
     = ''/orders?status=open&statuspending?product_id=BTC-USD''
   \<and> orders_endpoint example_env \<lparr>status = None, product_id = Some ''BTC-USD''\<rparr>
     = ''/orders&product_id=BTC-USD''
   \<and> snd (get_orders example_env example_client ''1541289600.0''
             \<lparr>status = Some [''open'', ''pending''], product_id = Some ''BTC-USD''\<rparr>
             [Responds \<lparr>status_code = 200, resp_body = Some (JList [])\<rparr>])
     = [HttpCall ''GET'' ''https://api.gdax.com/orders?status=open&statuspending?product_id=BTC-USD'']"
proof -
  have ep: "orders_endpoint example_env
              \<lparr>status = Some [''open'', ''pending''], product_id = Some ''BTC-USD''\<rparr>
            = ''/orders?status=open&statuspending?product_id=BTC-USD''"
    by (simp add: orders_endpoint_def example_env_def)
  have ep2: "orders_endpoint example_env \<lparr>status = None, product_id = Some ''BTC-USD''\<rparr>
            = ''/orders&product_id=BTC-USD''"
    by (simp add: orders_endpoint_def example_env_def)
  obtain h where "generate_signature example_env example_client ''1541289600.0''
         ''/orders?status=open&statuspending?product_id=BTC-USD'' ''GET'' [] = Inr h"
    using example_orders_signature by blast
  then have "snd (get_orders example_env example_client ''1541289600.0''
             \<lparr>status = Some [''open'', ''pending''], product_id = Some ''BTC-USD''\<rparr>
             [Responds \<lparr>status_code = 200, resp_body = Some (JList [])\<rparr>])
     = [HttpCall ''GET'' ''https://api.gdax.com/orders?status=open&statuspending?product_id=BTC-USD'']"
    by (simp add: get_orders_def ep make_request_response check_status_ok resp_json_def
        base_url_def example_client_def api_def)
  with ep ep2 show ?thesis by simp
qed

text \<open>
  Claim C9: every call of \<^verbatim>\<open>_delete_order\<close>, and so of
  \<^verbatim>\<open>cancel_orders\<close>, for any order id, fails with a name-resolution error before
  any request is sent: \<^verbatim>\<open>body\<close> and \<^verbatim>\<open>headers\<close> are bound nowhere, and
  line 177 reads \<^verbatim>\<open>body\<close> first. The trace of the call is empty.
\<close>

theorem delete_order_name_error:
  "delete_order E self now order_id outs = (Some (Inl (NameError ''body'')), [])
   \<and> cancel_orders E self now order_id outs = (Some (Inl (NameError ''body'')), [])
   \<and> load_global ''body'' = Inl (NameError ''body'')
   \<and> load_global ''headers'' = Inl (NameError ''headers'')"
  by (simp add: cancel_orders_def delete_order_def load_body load_headers bindE_def)

end
